theory Spec2Isabelle
  imports Complex_Main
begin

section \<open>JavaScript strings and values\<close>

text \<open>
  A JavaScript string is a sequence of UTF-16 code units. It is modelled as a \<open>string\<close>
  whose characters are the code units below 256; every literal of the sources is ASCII.
  \<open>String.prototype.trim\<close> removes white space and line terminators from both ends; the
  ones below 256 are TAB, LF, VT, FF, CR, SP and NBSP.
\<close>

definition isWhiteSpace :: "char \<Rightarrow> bool" where
  "isWhiteSpace c = (c \<in> {CHR 0x09, CHR 0x0A, CHR 0x0B, CHR 0x0C, CHR 0x0D, CHR 0x20, CHR 0xA0})"

definition js_trim :: "string \<Rightarrow> string" where
  "js_trim s = rev (dropWhile isWhiteSpace (rev (dropWhile isWhiteSpace s)))"

text \<open>The decimal digits of a number, as a template literal \<open>`${n}`\<close> prints them.\<close>

definition digit_char :: "nat \<Rightarrow> char" where
  "digit_char d = ''0123456789'' ! d"

function show_nat :: "nat \<Rightarrow> string" where
  "show_nat n = (if n < 10 then [digit_char n] else show_nat (n div 10) @ [digit_char (n mod 10)])"
  by pat_completeness auto
termination
  by (relation "measure (\<lambda>n. n)") auto

declare show_nat.simps [simp del]

text \<open>
  A JavaScript value as \<open>JSON.parse\<close> delivers it, together with \<open>undefined\<close>, which
  reading a missing property yields. An object is the list of its own properties.
\<close>

datatype jsval =
    JUndefined
  | JNull
  | JBool bool
  | JNum rat
  | JStr string
  | JArr "jsval list"
  | JObj "(string \<times> jsval) list"

text \<open>
  \<open>v.k\<close> for a property name \<open>k\<close>: reading a property of \<open>undefined\<close> or \<open>null\<close> throws a
  TypeError (\<open>None\<close>); a missing property is \<open>undefined\<close>. The sources read only the names
  \<open>messages\<close>, \<open>choices\<close>, \<open>message\<close> and \<open>content\<close>, which no string, number, boolean or
  array has.
\<close>

fun getProp :: "jsval \<Rightarrow> string \<Rightarrow> jsval option" where
  "getProp JUndefined k = None"
| "getProp JNull k = None"
| "getProp (JObj kvs) k = Some (case map_of kvs k of None \<Rightarrow> JUndefined | Some v \<Rightarrow> v)"
| "getProp (JBool b) k = Some JUndefined"
| "getProp (JNum n) k = Some JUndefined"
| "getProp (JStr s) k = Some JUndefined"
| "getProp (JArr xs) k = Some JUndefined"

text \<open>\<open>v[i]\<close> for an index \<open>i\<close>.\<close>

fun getIndex :: "jsval \<Rightarrow> nat \<Rightarrow> jsval option" where
  "getIndex JUndefined i = None"
| "getIndex JNull i = None"
| "getIndex (JArr xs) i = Some (if i < length xs then xs ! i else JUndefined)"
| "getIndex (JStr s) i = Some (if i < length s then JStr [s ! i] else JUndefined)"
| "getIndex (JObj kvs) i = Some (case map_of kvs (show_nat i) of None \<Rightarrow> JUndefined | Some v \<Rightarrow> v)"
| "getIndex (JBool b) i = Some JUndefined"
| "getIndex (JNum n) i = Some JUndefined"

text \<open>\<open>v?.k\<close>: \<open>undefined\<close> when \<open>v\<close> is \<open>undefined\<close> or \<open>null\<close>, else \<open>v.k\<close>.\<close>

definition optChain :: "jsval \<Rightarrow> string \<Rightarrow> jsval" where
  "optChain v k =
     (if v = JUndefined \<or> v = JNull then JUndefined
      else (case getProp v k of None \<Rightarrow> JUndefined | Some x \<Rightarrow> x))"

text \<open>The values that \<open>||\<close> and \<open>!\<close> take for true.\<close>

fun truthy :: "jsval \<Rightarrow> bool" where
  "truthy JUndefined = False"
| "truthy JNull = False"
| "truthy (JBool b) = b"
| "truthy (JNum n) = (n \<noteq> 0)"
| "truthy (JStr s) = (s \<noteq> [])"
| "truthy (JArr xs) = True"
| "truthy (JObj kvs) = True"

text \<open>A thrown error, by its \<open>message\<close>.\<close>

datatype js_error = JsError (message: string)

section \<open>The fetch API\<close>

text \<open>
  The body of a response: reading it can fail, its text need not be JSON, or it is a text
  with the value \<open>JSON.parse\<close> gives for it.
\<close>

datatype body_read =
    Unreadable string
  | NotJson string string
  | Json string jsval

record response =
  status :: nat
  statusText :: string
  resp_body :: body_read

definition ok :: "response \<Rightarrow> bool" where
  "ok r = (200 \<le> status r \<and> status r \<le> 299)"

fun response_text :: "body_read \<Rightarrow> js_error + string" where
  "response_text (Unreadable m) = Inl (JsError m)"
| "response_text (NotJson t m) = Inr t"
| "response_text (Json t v) = Inr t"

fun response_json :: "body_read \<Rightarrow> js_error + jsval" where
  "response_json (Unreadable m) = Inl (JsError m)"
| "response_json (NotJson t m) = Inl (JsError m)"
| "response_json (Json t v) = Inr v"

datatype fetch_outcome = Rejected string | Responded response

record 'm completion_body =
  cb_model :: string
  cb_messages :: 'm
  cb_temperature :: rat
  cb_max_tokens :: nat

record 'm request =
  url :: string
  http_method :: string
  headers :: "(string \<times> string) list"
  body :: "'m completion_body"

text \<open>A string or \<open>undefined\<close> inside a template literal.\<close>

fun template :: "string option \<Rightarrow> string" where
  "template None = ''undefined''"
| "template (Some s) = s"

section \<open>The chat client (src/App.tsx)\<close>

datatype Role = User | Assistant | System

record ChatMessage =
  msg_id :: string
  role :: Role
  content :: jsval
  created_at :: "string option"

definition getSessionId :: string where
  "getSessionId = ''00000000-0000-0000-0000-000000000000''"

text \<open>The component's state: \<open>messages\<close> is the view model, \<open>isLoading\<close> the in-flight flag.\<close>

record app_state =
  messages :: "ChatMessage list"
  input :: string
  isLoading :: bool

text \<open>
  A row handed to \<open>supabase.from('chats').insert\<close>, and what the awaited call resolves
  to: an object with \<open>data\<close> and \<open>error\<close>, as \<open>handleSend\<close> destructures it. A failed
  insert is one with \<open>error\<close> set; \<open>error\<close> is modelled by its message.
\<close>

record chat_row =
  session_id :: string
  row_role :: Role
  row_content :: jsval

record insert_result =
  data :: "ChatMessage option"
  error :: "string option"

record api_message =
  api_role :: Role
  api_content :: jsval

text \<open>
  What is outside the component, for one call of \<open>handleSend\<close>: the build-time variable
  \<open>import.meta.env.VITE_NVIDIA_API_KEY\<close>, the results of the first and the second call of
  \<open>crypto.randomUUID\<close>, what the two inserts resolve to, how \<open>fetch\<close> settles, and the
  message of the TypeError the engine raises on reading a property of \<open>undefined\<close> or
  \<open>null\<close>. Each of these calls happens at most once in \<open>handleSend\<close>.
\<close>

record world =
  import_meta_env_VITE_NVIDIA_API_KEY :: "string option"
  randomUUID_1 :: string
  randomUUID_2 :: string
  userInsert :: insert_result
  fetched :: fetch_outcome
  assistantInsert :: insert_result
  typeErrorMessage :: "jsval \<Rightarrow> string \<Rightarrow> string"

text \<open>What \<open>handleSend\<close> does to the outside, in order.\<close>

datatype effect =
    PreventDefault
  | Insert chat_row
  | InsertSelectSingle chat_row
  | Fetch "api_message list request"
  | ConsoleError string string
  | ConsoleWarn string string

definition roleContent :: "ChatMessage \<Rightarrow> api_message" where
  "roleContent m = \<lparr>api_role = role m, api_content = content m\<rparr>"

definition systemPreamble :: api_message where
  "systemPreamble =
     \<lparr>api_role = System, api_content = JStr ''You are a helpful, concise AI assistant.''\<rparr>"

definition apiMessages :: "ChatMessage list \<Rightarrow> string \<Rightarrow> api_message list" where
  "apiMessages msgs userMsgContent =
     [systemPreamble] @ map roleContent msgs
       @ [\<lparr>api_role = User, api_content = JStr userMsgContent\<rparr>]"

definition chatRequest :: "string option \<Rightarrow> api_message list \<Rightarrow> api_message list request" where
  "chatRequest key msgs =
     \<lparr>url = ''/api/nvidia/v1/chat/completions'',
      http_method = ''POST'',
      headers = [(''Content-Type'', ''application/json''),
                 (''Authorization'', ''Bearer '' @ template key)],
      body = \<lparr>cb_model = ''meta/llama-3.1-70b-instruct'',
               cb_messages = msgs,
               cb_temperature = 7 / 10,
               cb_max_tokens = 1024\<rparr>\<rparr>"

definition fallbackContent :: string where
  "fallbackContent = ''Sorry, I couldn'' @ [CHR 0x27] @ ''t formulate a response.''"

text \<open>\<open>resData.choices[0]?.message?.content || 'Sorry, ...'\<close>\<close>

definition assistantMsgContent :: "(jsval \<Rightarrow> string \<Rightarrow> string) \<Rightarrow> jsval \<Rightarrow> js_error + jsval" where
  "assistantMsgContent tem resData =
     (case getProp resData ''choices'' of
        None \<Rightarrow> Inl (JsError (tem resData ''choices''))
      | Some choices \<Rightarrow>
          (case getIndex choices 0 of
             None \<Rightarrow> Inl (JsError (tem choices ''0''))
           | Some c0 \<Rightarrow>
               (let v = optChain (optChain c0 ''message'') ''content''
                in Inr (if truthy v then v else JStr fallbackContent))))"

text \<open>
  The body of the \<open>try\<close> block. \<open>msgs\<close> is the \<open>messages\<close> the handler closed over (the view
  model of the render the form was submitted from), \<open>s\<close> the state the updaters act on.
  The result of the user turn's insert is awaited and dropped. \<open>Inl\<close> is a thrown error,
  with the effects up to the throw.
\<close>

definition tryBlock :: "world \<Rightarrow> ChatMessage list \<Rightarrow> string \<Rightarrow> app_state
    \<Rightarrow> effect list \<times> (js_error + app_state)" where
  "tryBlock w msgs userMsgContent s =
     (let e1 = [Insert \<lparr>session_id = getSessionId, row_role = User,
                        row_content = JStr userMsgContent\<rparr>];
          discarded = userInsert w;
          e2 = e1 @ [Fetch (chatRequest (import_meta_env_VITE_NVIDIA_API_KEY w)
                       (apiMessages msgs userMsgContent))]
      in case fetched w of
           Rejected m \<Rightarrow> (e2, Inl (JsError m))
         | Responded r \<Rightarrow>
             if \<not> ok r then
               (e2, Inl (JsError (''Nvidia API error: '' @ show_nat (status r) @ '' ''
                                    @ statusText r)))
             else
               (case response_json (resp_body r) of
                  Inl err \<Rightarrow> (e2, Inl err)
                | Inr resData \<Rightarrow>
                    (case assistantMsgContent (typeErrorMessage w) resData of
                       Inl err \<Rightarrow> (e2, Inl err)
                     | Inr c \<Rightarrow>
                         (let e3 = e2 @ [InsertSelectSingle
                                      \<lparr>session_id = getSessionId, row_role = Assistant,
                                       row_content = c\<rparr>];
                              e4 = e3 @ (case error (assistantInsert w) of
                                           Some supabaseError \<Rightarrow>
                                             [ConsoleWarn ''Failed to insert assistant message:''
                                                supabaseError]
                                         | None \<Rightarrow> [])
                          in case data (assistantInsert w) of
                               Some savedAssistantMsg \<Rightarrow>
                                 (e4, Inr (s\<lparr>messages := messages s @ [savedAssistantMsg]\<rparr>))
                             | None \<Rightarrow>
                                 (e4, Inr (s\<lparr>messages := messages s @
                                    [\<lparr>msg_id = randomUUID_2 w, role = Assistant, content = c,
                                      created_at = None\<rparr>]\<rparr>))))))"

definition errMsg :: "js_error \<Rightarrow> string" where
  "errMsg err =
     (let m = (if message err \<noteq> [] then message err
               else ''An error occurred while processing your request.'')
      in if m = ''Failed to fetch''
         then ''Failed to connect to the API. This might be a CORS issue or network offline.''
         else m)"

definition catchBlock :: "world \<Rightarrow> js_error \<Rightarrow> app_state \<Rightarrow> effect list \<times> app_state" where
  "catchBlock w err s =
     ([ConsoleError ''Error in chat flow:'' (message err)],
      s\<lparr>messages := messages s @
          [\<lparr>msg_id = randomUUID_2 w, role = Assistant,
            content = JStr (''Error: '' @ errMsg err), created_at = None\<rparr>]\<rparr>)"

definition newUserMsg :: "world \<Rightarrow> app_state \<Rightarrow> ChatMessage" where
  "newUserMsg w s =
     \<lparr>msg_id = randomUUID_1 w, role = User, content = JStr (js_trim (input s)),
      created_at = None\<rparr>"

definition handleSend :: "world \<Rightarrow> app_state \<Rightarrow> app_state \<times> effect list" where
  "handleSend w s =
     (if js_trim (input s) = [] \<or> isLoading s then (s, [PreventDefault])
      else
        (let userMsgContent = js_trim (input s);
             s1 = s\<lparr>input := [], isLoading := True\<rparr>;
             s2 = s1\<lparr>messages := messages s1 @ [newUserMsg w s]\<rparr>
         in case tryBlock w (messages s) userMsgContent s2 of
              (es, Inr s3) \<Rightarrow> (s3\<lparr>isLoading := False\<rparr>, PreventDefault # es)
            | (es, Inl err) \<Rightarrow>
                (case catchBlock w err s2 of
                   (es', s3) \<Rightarrow> (s3\<lparr>isLoading := False\<rparr>, PreventDefault # es @ es'))))"

section \<open>The gateway (api/chat.js)\<close>

record gateway_request =
  req_method :: string
  req_body :: jsval

datatype payload = Ended | JsonPayload jsval

record gateway_response =
  res_status :: nat
  res_headers :: "(string \<times> string) list"
  res_payload :: payload

text \<open>
  What is outside the handler, for one call: the two environment variables of the process,
  how the upstream \<open>fetch\<close> settles, and the engine's TypeError message.
\<close>

record gateway_world =
  VITE_NVIDIA_API_KEY :: "string option"
  NVIDIA_API_KEY :: "string option"
  upstream :: fetch_outcome
  gw_typeErrorMessage :: "jsval \<Rightarrow> string \<Rightarrow> string"

datatype gateway_effect =
    UpstreamFetch "jsval request"
  | GatewayConsoleError string string

definition corsHeaders :: "(string \<times> string) list" where
  "corsHeaders =
     [(''Access-Control-Allow-Credentials'', ''true''),
      (''Access-Control-Allow-Origin'', ''*''),
      (''Access-Control-Allow-Methods'', ''GET,OPTIONS,PATCH,DELETE,POST,PUT''),
      (''Access-Control-Allow-Headers'',
       ''X-CSRF-Token, X-Requested-With, Accept, Accept-Version, Content-Length, Content-MD5, Content-Type, Date, X-Api-Version, Authorization'')]"

definition respond :: "nat \<Rightarrow> payload \<Rightarrow> gateway_response" where
  "respond st p = \<lparr>res_status = st, res_headers = corsHeaders, res_payload = p\<rparr>"

text \<open>\<open>process.env.VITE_NVIDIA_API_KEY || process.env.NVIDIA_API_KEY\<close>\<close>

definition apiKey :: "gateway_world \<Rightarrow> string option" where
  "apiKey w =
     (case VITE_NVIDIA_API_KEY w of
        Some k \<Rightarrow> if k \<noteq> [] then Some k else NVIDIA_API_KEY w
      | None \<Rightarrow> NVIDIA_API_KEY w)"

text \<open>
  The request sent upstream. Its body is the object given to \<open>JSON.stringify\<close>; a
  \<open>cb_messages\<close> of \<open>JUndefined\<close> is a body without \<open>messages\<close>, since \<open>JSON.stringify\<close>
  leaves out a property whose value is \<open>undefined\<close>.
\<close>

definition upstreamRequest :: "string \<Rightarrow> jsval \<Rightarrow> jsval request" where
  "upstreamRequest key msgs =
     \<lparr>url = ''https://integrate.api.nvidia.com/v1/chat/completions'',
      http_method = ''POST'',
      headers = [(''Content-Type'', ''application/json''),
                 (''Authorization'', ''Bearer '' @ key)],
      body = \<lparr>cb_model = ''meta/llama-3.1-70b-instruct'',
               cb_messages = msgs,
               cb_temperature = 7 / 10,
               cb_max_tokens = 1024\<rparr>\<rparr>"

definition internalError :: "js_error \<Rightarrow> gateway_response \<times> gateway_effect list" where
  "internalError err =
     (respond 500 (JsonPayload (JObj
        [(''error'', JStr ''Internal Server Error fetching from Nvidia''),
         (''details'', JStr (message err))])),
      [GatewayConsoleError ''Vercel API Route Exception:'' (message err)])"

text \<open>
  The \<open>try\<close> block: \<open>Inl\<close> is a thrown error, with the effects up to the throw; \<open>Inr\<close> is
  the response a \<open>return\<close> sends.
\<close>

definition gatewayTry :: "gateway_world \<Rightarrow> gateway_request
    \<Rightarrow> gateway_effect list \<times> (js_error + gateway_response)" where
  "gatewayTry w req =
     (case apiKey w of
        None \<Rightarrow>
          ([], Inr (respond 500 (JsonPayload (JObj
             [(''error'',
               JStr ''Backend Configuration Error: NVIDIA API Key is missing on Vercel.'')]))))
      | Some key \<Rightarrow>
          if key = [] then
            ([], Inr (respond 500 (JsonPayload (JObj
               [(''error'',
                 JStr ''Backend Configuration Error: NVIDIA API Key is missing on Vercel.'')]))))
          else
            (case getProp (req_body req) ''messages'' of
               None \<Rightarrow> ([], Inl (JsError (gw_typeErrorMessage w (req_body req) ''messages'')))
             | Some msgs \<Rightarrow>
                 (let e1 = [UpstreamFetch (upstreamRequest key msgs)]
                  in case upstream w of
                       Rejected m \<Rightarrow> (e1, Inl (JsError m))
                     | Responded r \<Rightarrow>
                         if \<not> ok r then
                           (case response_text (resp_body r) of
                              Inl err \<Rightarrow> (e1, Inl err)
                            | Inr errText \<Rightarrow>
                                (e1, Inr (respond (status r) (JsonPayload (JObj
                                   [(''error'',
                                     JStr (''Nvidia upstream error: '' @ show_nat (status r)
                                           @ '' '' @ errText))])))))
                         else
                           (case response_json (resp_body r) of
                              Inl err \<Rightarrow> (e1, Inl err)
                            | Inr d \<Rightarrow> (e1, Inr (respond 200 (JsonPayload d)))))))"

definition handler :: "gateway_world \<Rightarrow> gateway_request
    \<Rightarrow> gateway_response \<times> gateway_effect list" where
  "handler w req =
     (if req_method req = ''OPTIONS'' then (respond 200 Ended, [])
      else if req_method req \<noteq> ''POST'' then
        (respond 405 (JsonPayload (JObj [(''error'', JStr ''Method not allowed. Use POST.'')])), [])
      else
        (case gatewayTry w req of
           (es, Inr res) \<Rightarrow> (res, es)
         | (es, Inl err) \<Rightarrow> (case internalError err of (res, es') \<Rightarrow> (res, es @ es'))))"

text \<open>The \<open>error\<close> field of a response's JSON object, when it is a string.\<close>

fun errorField :: "payload \<Rightarrow> string option" where
  "errorField (JsonPayload (JObj kvs)) =
     (case map_of kvs ''error'' of Some (JStr e) \<Rightarrow> Some e | _ \<Rightarrow> None)"
| "errorField _ = None"

section \<open>Observations on a run, and the scenarios of the specification\<close>

text \<open>The entries a run writes to the console.\<close>

fun isLog :: "effect \<Rightarrow> bool" where
  "isLog (ConsoleError l m) = True"
| "isLog (ConsoleWarn l m) = True"
| "isLog e = False"

text \<open>The rows a run hands to the store, and the message lists it sends to the provider.\<close>

fun insertedRows :: "effect list \<Rightarrow> chat_row list" where
  "insertedRows [] = []"
| "insertedRows (Insert r # es) = r # insertedRows es"
| "insertedRows (InsertSelectSingle r # es) = r # insertedRows es"
| "insertedRows (e # es) = insertedRows es"

fun sentMessages :: "effect list \<Rightarrow> api_message list list" where
  "sentMessages [] = []"
| "sentMessages (Fetch r # es) = cb_messages (body r) # sentMessages es"
| "sentMessages (e # es) = sentMessages es"

fun sentHeaders :: "effect list \<Rightarrow> (string \<times> string) list list" where
  "sentHeaders [] = []"
| "sentHeaders (Fetch r # es) = headers r # sentHeaders es"
| "sentHeaders (e # es) = sentHeaders es"

definition idRoleContent :: "ChatMessage \<Rightarrow> string \<times> Role \<times> jsval" where
  "idRoleContent m = (msg_id m, role m, content m)"

text \<open>
  A completion response whose \<open>choices[0].message.content\<close> is \<open>c\<close>; \<open>rawText\<close> stands for
  its text, which the client never reads.
\<close>

definition rawText :: string where
  "rawText = ''(json)''"

definition completionJson :: "jsval \<Rightarrow> jsval" where
  "completionJson c =
     JObj [(''choices'',
            JArr [JObj [(''message'', JObj [(''role'', JStr ''assistant''), (''content'', c)])]])]"

definition engineMessage :: "jsval \<Rightarrow> string \<Rightarrow> string" where
  "engineMessage v k =
     ''Cannot read properties of ''
       @ (if v = JNull then ''null'' else ''undefined'')
       @ '' (reading '' @ [CHR 0x27] @ k @ [CHR 0x27] @ '')''"

text \<open>
  The all-success scenario: the store answers the user turn with id \<open>u1\<close> and the assistant
  turn with id \<open>a1\<close>, the provider answers \<open>Hi there!\<close>; \<open>uid1\<close> and \<open>uid2\<close> are what
  \<open>crypto.randomUUID\<close> returns.
\<close>

definition helloWorld :: "string \<Rightarrow> string \<Rightarrow> world" where
  "helloWorld uid1 uid2 =
     \<lparr>import_meta_env_VITE_NVIDIA_API_KEY = Some ''nvapi-EXAMPLE'',
      randomUUID_1 = uid1,
      randomUUID_2 = uid2,
      userInsert = \<lparr>data = Some \<lparr>msg_id = ''u1'', role = User, content = JStr ''hello'',
                                 created_at = Some ''T1''\<rparr>,
                    error = None\<rparr>,
      fetched = Responded \<lparr>status = 200, statusText = ''OK'',
                           resp_body = Json rawText (completionJson (JStr ''Hi there!''))\<rparr>,
      assistantInsert = \<lparr>data = Some \<lparr>msg_id = ''a1'', role = Assistant,
                                      content = JStr ''Hi there!'', created_at = Some ''T2''\<rparr>,
                         error = None\<rparr>,
      typeErrorMessage = engineMessage\<rparr>"

definition helloState :: app_state where
  "helloState = \<lparr>messages = [], input = ''hello'', isLoading = False\<rparr>"

definition exampleWorld :: world where
  "exampleWorld =
     helloWorld ''3b241101-e2bb-4255-8caf-4136c566a962'' ''9c5b94b1-35ad-49bb-b118-8e8fc24abf80''"

definition helloAgainState :: app_state where
  "helloAgainState =
     \<lparr>messages =
        [\<lparr>msg_id = ''u1'', role = User, content = JStr ''hello'', created_at = Some ''T1''\<rparr>,
         \<lparr>msg_id = ''a1'', role = Assistant, content = JStr ''Hi there!'',
           created_at = Some ''T2''\<rparr>],
      input = '' hello  '', isLoading = False\<rparr>"

definition badGateway :: fetch_outcome where
  "badGateway =
     Responded \<lparr>status = 502, statusText = ''Bad Gateway'',
                resp_body = NotJson ''Bad Gateway'' ''Unexpected token B in JSON at position 0''\<rparr>"

text \<open>
  The same failure on a connection that carries no reason phrase (HTTP/2): the status
  text is empty, the body is still \<open>Bad Gateway\<close>.
\<close>

definition badGatewayNoStatusText :: fetch_outcome where
  "badGatewayNoStatusText =
     Responded \<lparr>status = 502, statusText = [],
                resp_body = NotJson ''Bad Gateway'' ''Unexpected token B in JSON at position 0''\<rparr>"

text \<open>The requests a run of the gateway sends upstream.\<close>

fun upstreamRequests :: "gateway_effect list \<Rightarrow> jsval request list" where
  "upstreamRequests [] = []"
| "upstreamRequests (UpstreamFetch r # es) = r # upstreamRequests es"
| "upstreamRequests (e # es) = upstreamRequests es"

definition exampleGateway :: "string option \<Rightarrow> fetch_outcome \<Rightarrow> gateway_world" where
  "exampleGateway k up =
     \<lparr>VITE_NVIDIA_API_KEY = None, NVIDIA_API_KEY = k, upstream = up,
      gw_typeErrorMessage = engineMessage\<rparr>"

definition exampleMessages :: jsval where
  "exampleMessages = JArr [JObj [(''role'', JStr ''user''), (''content'', JStr ''hello'')]]"

definition exampleRequest :: gateway_request where
  "exampleRequest =
     \<lparr>req_method = ''POST'',
      req_body = JObj [(''model'', JStr ''other/model''),
                       (''messages'', exampleMessages),
                       (''temperature'', JNum 2),
                       (''max_tokens'', JNum 5)]\<rparr>"

section \<open>Auxiliary facts\<close>

lemma js_trim_empty_iff: "(js_trim s = []) = (\<forall>c\<in>set s. isWhiteSpace c)"
proof
  assume "js_trim s = []"
  then have a: "\<forall>c\<in>set (dropWhile isWhiteSpace s). isWhiteSpace c"
    by (simp add: js_trim_def)
  have "dropWhile isWhiteSpace s = []"
  proof (rule ccontr)
    assume n: "dropWhile isWhiteSpace s \<noteq> []"
    then have "\<not> isWhiteSpace (hd (dropWhile isWhiteSpace s))"
      by (rule hd_dropWhile)
    moreover have "hd (dropWhile isWhiteSpace s) \<in> set (dropWhile isWhiteSpace s)"
      using n by simp
    ultimately show False using a by blast
  qed
  then show "\<forall>c\<in>set s. isWhiteSpace c"
    by simp
next
  assume "\<forall>c\<in>set s. isWhiteSpace c"
  then have d: "dropWhile isWhiteSpace s = []"
    by simp
  show "js_trim s = []"
    unfolding js_trim_def d by simp
qed

lemma show_nat_502: "show_nat 502 = ''502''"
  by (simp add: show_nat.simps digit_char_def)

lemma js_trim_hello: "js_trim ''hello'' = ''hello''"
  by (simp add: js_trim_def isWhiteSpace_def)

lemma js_trim_hello_padded: "js_trim '' hello  '' = ''hello''"
  by (simp add: js_trim_def isWhiteSpace_def)

lemma assistantMsgContent_completionJson:
  "t \<noteq> [] \<Longrightarrow> assistantMsgContent tem (completionJson (JStr t)) = Inr (JStr t)"
  by (simp add: assistantMsgContent_def completionJson_def optChain_def)

text \<open>An accepted submission: the optimistic append, then the \<open>try\<close> block and its handlers.\<close>

lemma handleSend_accepts:
  assumes "js_trim (input s) \<noteq> []" "\<not> isLoading s"
  shows "handleSend w s =
     (case tryBlock w (messages s) (js_trim (input s))
             \<lparr>messages = messages s @ [newUserMsg w s], input = [], isLoading = True\<rparr> of
        (es, Inr s3) \<Rightarrow> (s3\<lparr>isLoading := False\<rparr>, PreventDefault # es)
      | (es, Inl err) \<Rightarrow>
          (\<lparr>messages = messages s @ [newUserMsg w s,
               \<lparr>msg_id = randomUUID_2 w, role = Assistant,
                content = JStr (''Error: '' @ errMsg err), created_at = None\<rparr>],
            input = [], isLoading = False\<rparr>,
           PreventDefault # es @ [ConsoleError ''Error in chat flow:'' (message err)]))"
  using assms
  by (cases s) (simp add: handleSend_def catchBlock_def Let_def split: prod.splits sum.splits)

text \<open>Every run of the \<open>try\<close> block inserts the user turn and calls the provider, once each.\<close>

lemma tryBlock_effects:
  "\<exists>rest. fst (tryBlock w msgs u s) =
      [Insert \<lparr>session_id = getSessionId, row_role = User, row_content = JStr u\<rparr>,
       Fetch (chatRequest (import_meta_env_VITE_NVIDIA_API_KEY w) (apiMessages msgs u))] @ rest
     \<and> sentMessages rest = [] \<and> sentHeaders rest = []"
  by (simp add: tryBlock_def Let_def split: fetch_outcome.splits sum.splits option.splits)

lemma sentMessages_append: "sentMessages (xs @ ys) = sentMessages xs @ sentMessages ys"
  by (induction xs rule: sentMessages.induct) simp_all

lemma tryBlock_userInsert:
  "tryBlock (w\<lparr>userInsert := r\<rparr>) msgs u s = tryBlock w msgs u s"
  by (simp add: tryBlock_def Let_def split: fetch_outcome.splits sum.splits option.splits)

lemma handleSend_userInsert: "handleSend (w\<lparr>userInsert := r\<rparr>) s = handleSend w s"
  by (simp add: handleSend_def tryBlock_userInsert catchBlock_def newUserMsg_def Let_def
      split: prod.splits sum.splits)

lemma handler_post:
  assumes "req_method req = ''POST''"
  shows "handler w req =
     (case gatewayTry w req of
        (es, Inr res) \<Rightarrow> (res, es)
      | (es, Inl err) \<Rightarrow>
          (respond 500 (JsonPayload (JObj
             [(''error'', JStr ''Internal Server Error fetching from Nvidia''),
              (''details'', JStr (message err))])),
           es @ [GatewayConsoleError ''Vercel API Route Exception:'' (message err)]))"
  using assms by (simp add: handler_def internalError_def split: prod.splits sum.splits)

lemma apiKey_cases:
  obtains (missing) "apiKey w = None \<or> apiKey w = Some []"
        | (present) key where "apiKey w = Some key" "key \<noteq> []"
  by (cases "apiKey w") auto

lemma exampleWorld_simps:
  "import_meta_env_VITE_NVIDIA_API_KEY exampleWorld = Some ''nvapi-EXAMPLE''"
  "randomUUID_1 exampleWorld = ''3b241101-e2bb-4255-8caf-4136c566a962''"
  "randomUUID_2 exampleWorld = ''9c5b94b1-35ad-49bb-b118-8e8fc24abf80''"
  "fetched exampleWorld = Responded \<lparr>status = 200, statusText = ''OK'',
      resp_body = Json rawText (completionJson (JStr ''Hi there!''))\<rparr>"
  "typeErrorMessage exampleWorld = engineMessage"
  by (simp_all add: exampleWorld_def helloWorld_def)

section \<open>The claims about the chat client\<close>

text \<open>
  C1. The claim: the provider credential is never in client-visible code and never sent
  by it. The client's own request carries it: for an accepted submission \<open>handleSend\<close>
  calls \<open>fetch\<close> with the header \<open>Authorization: Bearer\<close> followed by the build-time
  variable \<open>VITE_NVIDIA_API_KEY\<close>, here \<open>nvapi-EXAMPLE\<close>.
\<close>

theorem client_request_carries_credential:
  "import_meta_env_VITE_NVIDIA_API_KEY exampleWorld = Some ''nvapi-EXAMPLE''
   \<and> sentHeaders (snd (handleSend exampleWorld helloState)) =
       [[(''Content-Type'', ''application/json''),
         (''Authorization'', ''Bearer nvapi-EXAMPLE'')]]"
  by (simp add: handleSend_def tryBlock_def exampleWorld_def helloWorld_def helloState_def
      js_trim_hello newUserMsg_def ok_def assistantMsgContent_completionJson chatRequest_def
      Let_def)

text \<open>
  C2, as stated: in the all-success scenario for \<open>hello\<close> the final view model is the user
  turn with the store's id \<open>u1\<close> and the assistant turn with the store's id \<open>a1\<close>. It is
  not: the user turn keeps the id that \<open>crypto.randomUUID\<close> gave it.
\<close>

theorem hello_scenario_user_id_is_local:
  "map idRoleContent (messages (fst (handleSend exampleWorld helloState)))
     \<noteq> [(''u1'', User, JStr ''hello''), (''a1'', Assistant, JStr ''Hi there!'')]"
  by (simp add: handleSend_def tryBlock_def exampleWorld_def helloWorld_def helloState_def
      js_trim_hello newUserMsg_def ok_def assistantMsgContent_completionJson
      idRoleContent_def Let_def)

text \<open>
  C2, amended: in the all-success scenario for \<open>hello\<close> the final view model is the user
  turn under its locally generated id \<open>uid1\<close>, with no creation time, followed by the
  assistant turn as the store returned it, with id \<open>a1\<close> and creation time \<open>T2\<close>. The
  result of the user turn's insert is not read.
\<close>

theorem hello_scenario_final_view:
  "handleSend (helloWorld uid1 uid2) helloState =
     (\<lparr>messages =
         [\<lparr>msg_id = uid1, role = User, content = JStr ''hello'', created_at = None\<rparr>,
          \<lparr>msg_id = ''a1'', role = Assistant, content = JStr ''Hi there!'',
            created_at = Some ''T2''\<rparr>],
       input = [], isLoading = False\<rparr>,
      [PreventDefault,
       Insert \<lparr>session_id = getSessionId, row_role = User, row_content = JStr ''hello''\<rparr>,
       Fetch (chatRequest (Some ''nvapi-EXAMPLE'') (apiMessages [] ''hello'')),
       InsertSelectSingle \<lparr>session_id = getSessionId, row_role = Assistant,
                           row_content = JStr ''Hi there!''\<rparr>])"
  by (simp add: handleSend_def tryBlock_def helloWorld_def helloState_def
      js_trim_hello newUserMsg_def ok_def assistantMsgContent_completionJson Let_def)

text \<open>
  C3, as stated: when the provider call fails the view model gains one assistant turn with
  an error message, and for an upstream 502 its content is
  \<open>Error: Nvidia API error: 502 Bad Gateway\<close>. The text after the status is the response's
  status text, and the body is never read: for a 502 whose body is \<open>Bad Gateway\<close> and
  whose status text is empty, the content ends after the status.
\<close>

theorem upstream_502_without_status_text:
  "content (last (messages (fst
      (handleSend (exampleWorld\<lparr>fetched := badGatewayNoStatusText\<rparr>) helloState))))
     = JStr ''Error: Nvidia API error: 502 ''
   \<and> content (last (messages (fst
      (handleSend (exampleWorld\<lparr>fetched := badGatewayNoStatusText\<rparr>) helloState))))
     \<noteq> JStr ''Error: Nvidia API error: 502 Bad Gateway''"
  by (simp add: handleSend_def tryBlock_def catchBlock_def errMsg_def exampleWorld_def
      helloWorld_def helloState_def badGatewayNoStatusText_def js_trim_hello newUserMsg_def
      ok_def show_nat_502 Let_def)

text \<open>
  C3, amended: when the provider call fails, by a rejected \<open>fetch\<close> or a status outside 200
  to 299, an accepted submission adds to the view model the user turn and exactly one
  assistant turn, whose content is \<open>Error:\<close> followed by the message of the failure; the
  only row handed to the store is the user turn's. For an upstream 502 the content is
  \<open>Error: Nvidia API error: 502\<close>, a blank and the response's status text, so it is
  \<open>Error: Nvidia API error: 502 Bad Gateway\<close> when the status text is \<open>Bad Gateway\<close>; a
  rejection with the message \<open>Failed to fetch\<close> gives the CORS/offline message.
\<close>

theorem gateway_failure_appends_error_turn:
  assumes "js_trim (input s) \<noteq> []" and "\<not> isLoading s"
    and "case fetched w of Rejected m \<Rightarrow> True | Responded r \<Rightarrow> \<not> ok r"
  shows "(let thrown = (case fetched w of
                          Rejected m \<Rightarrow> JsError m
                        | Responded r \<Rightarrow>
                            JsError (''Nvidia API error: '' @ show_nat (status r) @ '' ''
                                       @ statusText r))
          in handleSend w s =
               (\<lparr>messages = messages s @
                   [newUserMsg w s,
                    \<lparr>msg_id = randomUUID_2 w, role = Assistant,
                     content = JStr (''Error: '' @ errMsg thrown), created_at = None\<rparr>],
                 input = [], isLoading = False\<rparr>,
                [PreventDefault,
                 Insert \<lparr>session_id = getSessionId, row_role = User,
                         row_content = JStr (js_trim (input s))\<rparr>,
                 Fetch (chatRequest (import_meta_env_VITE_NVIDIA_API_KEY w)
                          (apiMessages (messages s) (js_trim (input s)))),
                 ConsoleError ''Error in chat flow:'' (message thrown)]))
         \<and> filter (\<lambda>r. row_role r = Assistant) (insertedRows (snd (handleSend w s))) = []
         \<and> (\<forall>r. fetched w = Responded r \<and> status r = 502
               \<longrightarrow> content (last (messages (fst (handleSend w s))))
                     = JStr (''Error: Nvidia API error: 502 '' @ statusText r))
         \<and> (\<forall>r. fetched w = Responded r \<and> status r = 502 \<and> statusText r = ''Bad Gateway''
               \<longrightarrow> content (last (messages (fst (handleSend w s))))
                     = JStr ''Error: Nvidia API error: 502 Bad Gateway'')
         \<and> (fetched w = Rejected ''Failed to fetch''
               \<longrightarrow> content (last (messages (fst (handleSend w s))))
                     = JStr ''Error: Failed to connect to the API. This might be a CORS issue or network offline.'')"
proof (cases "fetched w")
  case (Rejected m)
  have t: "tryBlock w (messages s) (js_trim (input s))
             \<lparr>messages = messages s @ [newUserMsg w s], input = [], isLoading = True\<rparr>
           = ([Insert \<lparr>session_id = getSessionId, row_role = User,
                         row_content = JStr (js_trim (input s))\<rparr>,
               Fetch (chatRequest (import_meta_env_VITE_NVIDIA_API_KEY w)
                          (apiMessages (messages s) (js_trim (input s))))], Inl (JsError m))"
    using Rejected by (simp add: tryBlock_def)
  show ?thesis
    using Rejected by (simp add: handleSend_accepts [OF assms(1,2)] t errMsg_def)
next
  case (Responded r)
  then have nok: "\<not> ok r" using assms(3) by simp
  have t: "tryBlock w (messages s) (js_trim (input s))
             \<lparr>messages = messages s @ [newUserMsg w s], input = [], isLoading = True\<rparr>
           = ([Insert \<lparr>session_id = getSessionId, row_role = User,
                         row_content = JStr (js_trim (input s))\<rparr>,
               Fetch (chatRequest (import_meta_env_VITE_NVIDIA_API_KEY w)
                          (apiMessages (messages s) (js_trim (input s))))],
              Inl (JsError (''Nvidia API error: '' @ show_nat (status r) @ '' '' @ statusText r)))"
    using Responded nok by (simp add: tryBlock_def)
  show ?thesis
    using Responded
    by (auto simp add: handleSend_accepts [OF assms(1,2)] t errMsg_def show_nat_502)
qed

text \<open>
  C3, amended, at an upstream 502 with the status text \<open>Bad Gateway\<close>, and at a \<open>fetch\<close>
  that rejects with \<open>Failed to fetch\<close>.
\<close>

theorem gateway_failure_appends_error_turn_witness:
  "handleSend (exampleWorld\<lparr>fetched := badGateway\<rparr>) helloState =
     (\<lparr>messages =
         [\<lparr>msg_id = ''3b241101-e2bb-4255-8caf-4136c566a962'', role = User,
           content = JStr ''hello'', created_at = None\<rparr>,
          \<lparr>msg_id = ''9c5b94b1-35ad-49bb-b118-8e8fc24abf80'', role = Assistant,
           content = JStr ''Error: Nvidia API error: 502 Bad Gateway'', created_at = None\<rparr>],
       input = [], isLoading = False\<rparr>,
      [PreventDefault,
       Insert \<lparr>session_id = getSessionId, row_role = User, row_content = JStr ''hello''\<rparr>,
       Fetch (chatRequest (Some ''nvapi-EXAMPLE'') (apiMessages [] ''hello'')),
       ConsoleError ''Error in chat flow:'' ''Nvidia API error: 502 Bad Gateway''])
   \<and> content (last (messages (fst
         (handleSend (exampleWorld\<lparr>fetched := Rejected ''Failed to fetch''\<rparr>) helloState))))
       = JStr ''Error: Failed to connect to the API. This might be a CORS issue or network offline.''"
proof -
  have g: "js_trim (input helloState) \<noteq> []" "\<not> isLoading helloState"
    by (simp_all add: helloState_def js_trim_hello)
  have f1: "case fetched (exampleWorld\<lparr>fetched := badGateway\<rparr>) of
              Rejected m \<Rightarrow> True | Responded r \<Rightarrow> \<not> ok r"
    by (simp add: badGateway_def ok_def)
  have f2: "case fetched (exampleWorld\<lparr>fetched := Rejected ''Failed to fetch''\<rparr>) of
              Rejected m \<Rightarrow> True | Responded r \<Rightarrow> \<not> ok r"
    by simp
  show ?thesis
    using gateway_failure_appends_error_turn [OF g f1]
      gateway_failure_appends_error_turn [OF g f2]
    by (simp add: badGateway_def helloState_def js_trim_hello newUserMsg_def errMsg_def
        show_nat_502 exampleWorld_simps Let_def)
qed

text \<open>
  C4. For an accepted submission the message list sent to the provider is the system
  preamble, then every turn of the view model the submission started from, each reduced
  to its role and content, then the new user turn. That is one entry for each turn of the
  view model after the optimistic append, in which the new turn, under its fresh id,
  occurs exactly once: the submission adds the new user turn once, as the last entry, and
  entries equal to it before that come from earlier turns of the same role and content.
\<close>

theorem prompt_is_preamble_history_new_turn:
  assumes "js_trim (input s) \<noteq> []" and "\<not> isLoading s"
  shows "sentMessages (snd (handleSend w s)) =
           [[systemPreamble] @ map roleContent (messages s)
              @ [\<lparr>api_role = User, api_content = JStr (js_trim (input s))\<rparr>]]
       \<and> [systemPreamble] @ map roleContent (messages s)
              @ [\<lparr>api_role = User, api_content = JStr (js_trim (input s))\<rparr>]
           = systemPreamble # map roleContent (messages s @ [newUserMsg w s])
       \<and> count_list ([systemPreamble] @ map roleContent (messages s)
              @ [\<lparr>api_role = User, api_content = JStr (js_trim (input s))\<rparr>])
            \<lparr>api_role = User, api_content = JStr (js_trim (input s))\<rparr>
           = 1 + count_list (map roleContent (messages s))
                   \<lparr>api_role = User, api_content = JStr (js_trim (input s))\<rparr>
       \<and> (randomUUID_1 w \<notin> set (map msg_id (messages s))
            \<longrightarrow> count_list (messages s @ [newUserMsg w s]) (newUserMsg w s) = 1)"
proof -
  let ?s2 = "\<lparr>messages = messages s @ [newUserMsg w s], input = [], isLoading = True\<rparr>"
  obtain rest where r: "fst (tryBlock w (messages s) (js_trim (input s)) ?s2) =
      [Insert \<lparr>session_id = getSessionId, row_role = User,
               row_content = JStr (js_trim (input s))\<rparr>,
       Fetch (chatRequest (import_meta_env_VITE_NVIDIA_API_KEY w)
                (apiMessages (messages s) (js_trim (input s))))] @ rest"
    and n: "sentMessages rest = []"
    using tryBlock_effects by blast
  have a: "sentMessages (snd (handleSend w s)) =
             [apiMessages (messages s) (js_trim (input s))]"
    using r n
    by (cases "tryBlock w (messages s) (js_trim (input s)) ?s2")
       (auto simp add: handleSend_accepts [OF assms] sentMessages_append chatRequest_def
          split: sum.splits)
  have b: "[systemPreamble] @ map roleContent (messages s)
              @ [\<lparr>api_role = User, api_content = JStr (js_trim (input s))\<rparr>]
           = systemPreamble # map roleContent (messages s @ [newUserMsg w s])"
    by (simp add: roleContent_def newUserMsg_def)
  have c: "count_list ([systemPreamble] @ map roleContent (messages s)
              @ [\<lparr>api_role = User, api_content = JStr (js_trim (input s))\<rparr>])
            \<lparr>api_role = User, api_content = JStr (js_trim (input s))\<rparr>
           = 1 + count_list (map roleContent (messages s))
                   \<lparr>api_role = User, api_content = JStr (js_trim (input s))\<rparr>"
    by (simp add: count_list_append systemPreamble_def)
  have d: "count_list (messages s @ [newUserMsg w s]) (newUserMsg w s) = 1"
    if f: "randomUUID_1 w \<notin> set (map msg_id (messages s))"
  proof -
    have "newUserMsg w s \<notin> set (messages s)"
    proof
      assume "newUserMsg w s \<in> set (messages s)"
      then have "msg_id (newUserMsg w s) \<in> set (map msg_id (messages s))"
        by simp
      then show False using f by (simp add: newUserMsg_def)
    qed
    then have "count_list (messages s) (newUserMsg w s) = 0"
      by (simp add: count_list_0_iff)
    then show ?thesis by (simp add: count_list_append)
  qed
  show ?thesis using a b c d by (simp add: apiMessages_def)
qed

text \<open>
  C4 for a second \<open>hello\<close>, typed with blanks around it, after a first exchange: the list
  sent is the preamble, the two earlier turns and the new turn.
\<close>

theorem prompt_is_preamble_history_new_turn_witness:
  "sentMessages (snd (handleSend exampleWorld helloAgainState)) =
     [[\<lparr>api_role = System,
        api_content = JStr ''You are a helpful, concise AI assistant.''\<rparr>,
       \<lparr>api_role = User, api_content = JStr ''hello''\<rparr>,
       \<lparr>api_role = Assistant, api_content = JStr ''Hi there!''\<rparr>,
       \<lparr>api_role = User, api_content = JStr ''hello''\<rparr>]]
   \<and> count_list (messages helloAgainState @ [newUserMsg exampleWorld helloAgainState])
        (newUserMsg exampleWorld helloAgainState) = 1"
proof -
  have g: "js_trim (input helloAgainState) \<noteq> []" "\<not> isLoading helloAgainState"
    by (simp_all add: helloAgainState_def js_trim_hello_padded)
  have f: "randomUUID_1 exampleWorld \<notin> set (map msg_id (messages helloAgainState))"
    by (simp add: helloAgainState_def exampleWorld_simps)
  show ?thesis
    using prompt_is_preamble_history_new_turn [OF g, of exampleWorld] f
    by (simp add: helloAgainState_def js_trim_hello_padded systemPreamble_def roleContent_def)
qed



text \<open>
  C6. A submission whose input is empty or all white space, or one made while the
  in-flight flag is set, is rejected: the state (view model, input, in-flight flag) is
  unchanged, and nothing is done but \<open>preventDefault\<close> on the form event; no row goes to
  the store and no request to the provider.
\<close>

theorem handleSend_rejects_blank_or_busy:
  assumes "(\<forall>c\<in>set (input s). isWhiteSpace c) \<or> isLoading s"
  shows "handleSend w s = (s, [PreventDefault])"
  using assms by (auto simp add: handleSend_def js_trim_empty_iff)

text \<open>C6 for an input of a blank and a tab, and for \<open>hello\<close> submitted while in flight.\<close>

theorem handleSend_rejects_blank_or_busy_witness:
  "handleSend exampleWorld \<lparr>messages = [], input = [CHR 0x20, CHR 0x09], isLoading = False\<rparr>
     = (\<lparr>messages = [], input = [CHR 0x20, CHR 0x09], isLoading = False\<rparr>, [PreventDefault])
   \<and> handleSend exampleWorld \<lparr>messages = [], input = ''hello'', isLoading = True\<rparr>
     = (\<lparr>messages = [], input = ''hello'', isLoading = True\<rparr>, [PreventDefault])"
proof -
  have a: "(\<forall>c\<in>set (input \<lparr>messages = [], input = [CHR 0x20, CHR 0x09], isLoading = False\<rparr>).
              isWhiteSpace c)
           \<or> isLoading \<lparr>messages = [], input = [CHR 0x20, CHR 0x09], isLoading = False\<rparr>"
    by (simp add: isWhiteSpace_def)
  have b: "(\<forall>c\<in>set (input \<lparr>messages = [], input = ''hello'', isLoading = True\<rparr>).
              isWhiteSpace c)
           \<or> isLoading \<lparr>messages = [], input = ''hello'', isLoading = True\<rparr>"
    by simp
  show ?thesis
    using handleSend_rejects_blank_or_busy [OF a, of exampleWorld]
      handleSend_rejects_blank_or_busy [OF b, of exampleWorld]
    by simp
qed

text \<open>
  C7. The claim: when the insert of the user turn fails, the failure is logged and the
  pipeline proceeds. The code drops the result of that insert, so nothing is logged: in
  the \<open>hello\<close> scenario with the user turn's insert failing, the run writes no console
  entry. The other calls to the store do log a failure: the assistant turn's insert with
  \<open>console.warn\<close>, \<open>fetchChats\<close> with \<open>console.error\<close>.
\<close>

theorem user_persist_failure_not_logged:
  "filter isLog (snd (handleSend
      (exampleWorld\<lparr>userInsert := \<lparr>data = None, error = Some ''insert failed''\<rparr>\<rparr>)
      helloState)) = []"
  by (simp add: handleSend_def tryBlock_def exampleWorld_def helloWorld_def helloState_def
      js_trim_hello newUserMsg_def ok_def assistantMsgContent_completionJson Let_def)

text \<open>
  What holds of a failing insert of the user turn: the run is, in state and in effects,
  the run in which the insert succeeds. The failure is not fatal and is not shown to the
  user, and an accepted submission goes on to build the prompt and call the provider.
\<close>

lemma user_persist_failure_is_ignored:
  "handleSend (w\<lparr>userInsert := \<lparr>data = None, error = Some e\<rparr>\<rparr>) s
     = handleSend (w\<lparr>userInsert := \<lparr>data = d, error = None\<rparr>\<rparr>) s
   \<and> (js_trim (input s) \<noteq> [] \<and> \<not> isLoading s \<longrightarrow>
        take 3 (snd (handleSend (w\<lparr>userInsert := \<lparr>data = None, error = Some e\<rparr>\<rparr>) s))
          = [PreventDefault,
             Insert \<lparr>session_id = getSessionId, row_role = User,
                     row_content = JStr (js_trim (input s))\<rparr>,
             Fetch (chatRequest (import_meta_env_VITE_NVIDIA_API_KEY w)
                      (apiMessages (messages s) (js_trim (input s))))])"
proof -
  let ?w = "w\<lparr>userInsert := \<lparr>data = None, error = Some e\<rparr>\<rparr>"
  have a: "handleSend ?w s = handleSend (w\<lparr>userInsert := \<lparr>data = d, error = None\<rparr>\<rparr>) s"
    by (simp add: handleSend_userInsert)
  have b: "take 3 (snd (handleSend ?w s))
          = [PreventDefault,
             Insert \<lparr>session_id = getSessionId, row_role = User,
                     row_content = JStr (js_trim (input s))\<rparr>,
             Fetch (chatRequest (import_meta_env_VITE_NVIDIA_API_KEY w)
                      (apiMessages (messages s) (js_trim (input s))))]"
    if g: "js_trim (input s) \<noteq> []" "\<not> isLoading s"
  proof -
    let ?s2 = "\<lparr>messages = messages s @ [newUserMsg ?w s], input = [], isLoading = True\<rparr>"
    obtain rest where r: "fst (tryBlock ?w (messages s) (js_trim (input s)) ?s2) =
      [Insert \<lparr>session_id = getSessionId, row_role = User,
               row_content = JStr (js_trim (input s))\<rparr>,
       Fetch (chatRequest (import_meta_env_VITE_NVIDIA_API_KEY ?w)
                (apiMessages (messages s) (js_trim (input s))))] @ rest"
      using tryBlock_effects by blast
    show ?thesis
      using r
      by (cases "tryBlock ?w (messages s) (js_trim (input s)) ?s2")
         (auto simp add: handleSend_accepts [OF g] split: sum.splits)
  qed
  show ?thesis using a b by blast
qed

text \<open>
  In the \<open>hello\<close> scenario with the user turn's insert failing, the run is the
  all-success run.
\<close>

lemma user_persist_failure_is_ignored_witness:
  "handleSend (exampleWorld\<lparr>userInsert := \<lparr>data = None, error = Some ''insert failed''\<rparr>\<rparr>)
     helloState
   = (\<lparr>messages =
         [\<lparr>msg_id = ''3b241101-e2bb-4255-8caf-4136c566a962'', role = User,
           content = JStr ''hello'', created_at = None\<rparr>,
          \<lparr>msg_id = ''a1'', role = Assistant, content = JStr ''Hi there!'',
            created_at = Some ''T2''\<rparr>],
       input = [], isLoading = False\<rparr>,
      [PreventDefault,
       Insert \<lparr>session_id = getSessionId, row_role = User, row_content = JStr ''hello''\<rparr>,
       Fetch (chatRequest (Some ''nvapi-EXAMPLE'') (apiMessages [] ''hello'')),
       InsertSelectSingle \<lparr>session_id = getSessionId, row_role = Assistant,
                           row_content = JStr ''Hi there!''\<rparr>])"
proof -
  have g: "js_trim (input helloState) \<noteq> [] \<and> \<not> isLoading helloState"
    by (simp add: helloState_def js_trim_hello)
  have u: "exampleWorld\<lparr>userInsert := \<lparr>data = Some \<lparr>msg_id = ''u1'', role = User,
              content = JStr ''hello'', created_at = Some ''T1''\<rparr>, error = None\<rparr>\<rparr>
           = exampleWorld"
    by (simp add: exampleWorld_def helloWorld_def)
  have r: "handleSend exampleWorld helloState =
     (\<lparr>messages =
         [\<lparr>msg_id = ''3b241101-e2bb-4255-8caf-4136c566a962'', role = User,
           content = JStr ''hello'', created_at = None\<rparr>,
          \<lparr>msg_id = ''a1'', role = Assistant, content = JStr ''Hi there!'',
            created_at = Some ''T2''\<rparr>],
       input = [], isLoading = False\<rparr>,
      [PreventDefault,
       Insert \<lparr>session_id = getSessionId, row_role = User, row_content = JStr ''hello''\<rparr>,
       Fetch (chatRequest (Some ''nvapi-EXAMPLE'') (apiMessages [] ''hello'')),
       InsertSelectSingle \<lparr>session_id = getSessionId, row_role = Assistant,
                           row_content = JStr ''Hi there!''\<rparr>])"
    by (simp add: handleSend_def tryBlock_def exampleWorld_def helloWorld_def helloState_def
        js_trim_hello newUserMsg_def ok_def assistantMsgContent_completionJson Let_def)
  show ?thesis
    using user_persist_failure_is_ignored [where w = exampleWorld and e = "''insert failed''"
        and s = helloState
        and d = "Some \<lparr>msg_id = ''u1'', role = User, content = JStr ''hello'',
               created_at = Some ''T1''\<rparr>"] g
    by (simp add: u r)
qed

text \<open>
  C10. The claim: a 2xx response without \<open>choices[0].message.content\<close> does not fail the
  flow, the fallback sentence becomes the assistant's content. For a response whose JSON
  is the empty object, reading \<open>resData.choices[0]\<close> throws: the run ends in the \<open>catch\<close>
  block, the view model shows the engine's TypeError message after \<open>Error:\<close>, and no
  assistant row is handed to the store.
\<close>

theorem missing_choices_takes_error_path:
  "handleSend (exampleWorld\<lparr>fetched := Responded
       \<lparr>status = 200, statusText = ''OK'', resp_body = Json ''{}'' (JObj [])\<rparr>\<rparr>) helloState
   = (\<lparr>messages =
         [\<lparr>msg_id = ''3b241101-e2bb-4255-8caf-4136c566a962'', role = User,
           content = JStr ''hello'', created_at = None\<rparr>,
          \<lparr>msg_id = ''9c5b94b1-35ad-49bb-b118-8e8fc24abf80'', role = Assistant,
           content = JStr (''Error: '' @ engineMessage JUndefined ''0''), created_at = None\<rparr>],
       input = [], isLoading = False\<rparr>,
      [PreventDefault,
       Insert \<lparr>session_id = getSessionId, row_role = User, row_content = JStr ''hello''\<rparr>,
       Fetch (chatRequest (Some ''nvapi-EXAMPLE'') (apiMessages [] ''hello'')),
       ConsoleError ''Error in chat flow:'' (engineMessage JUndefined ''0'')])"
  by (simp add: handleSend_def tryBlock_def catchBlock_def exampleWorld_def helloWorld_def
      helloState_def js_trim_hello newUserMsg_def ok_def assistantMsgContent_def errMsg_def
      engineMessage_def Let_def)

section \<open>The claims about the gateway\<close>

text \<open>
  C8. For every POST: when the upstream response is 2xx with a JSON body, the gateway
  responds 200 with that JSON; when the credential is missing it responds 500 with an
  \<open>error\<close> string; when the upstream response is not 2xx it responds with the upstream's
  status and an \<open>error\<close> string that holds that status and the text of the upstream body;
  and in every case the response is either such a 200, or a JSON object with an \<open>error\<close>
  string under status 500 or under the status of a failed upstream response.
\<close>

theorem gateway_status_and_error_body:
  assumes "req_method req = ''POST''"
  shows "(apiKey w = Some key \<and> key \<noteq> [] \<and> getProp (req_body req) ''messages'' = Some msgs
            \<and> upstream w = Responded r \<and> ok r \<and> resp_body r = Json t v
          \<longrightarrow> res_status (fst (handler w req)) = 200
              \<and> res_payload (fst (handler w req)) = JsonPayload v)
       \<and> (apiKey w = None \<or> apiKey w = Some []
          \<longrightarrow> res_status (fst (handler w req)) = 500
              \<and> errorField (res_payload (fst (handler w req)))
                  = Some ''Backend Configuration Error: NVIDIA API Key is missing on Vercel.'')
       \<and> (apiKey w = Some key \<and> key \<noteq> [] \<and> getProp (req_body req) ''messages'' = Some msgs
            \<and> upstream w = Responded r \<and> \<not> ok r \<and> response_text (resp_body r) = Inr errText
          \<longrightarrow> res_status (fst (handler w req)) = status r
              \<and> errorField (res_payload (fst (handler w req)))
                  = Some (''Nvidia upstream error: '' @ show_nat (status r) @ '' '' @ errText))
       \<and> ((res_status (fst (handler w req)) = 200
            \<and> (\<exists>r' t' v'. upstream w = Responded r' \<and> ok r' \<and> resp_body r' = Json t' v'
                  \<and> res_payload (fst (handler w req)) = JsonPayload v'))
          \<or> ((\<exists>e. errorField (res_payload (fst (handler w req))) = Some e)
             \<and> (res_status (fst (handler w req)) = 500
                \<or> (\<exists>r'. upstream w = Responded r' \<and> \<not> ok r'
                      \<and> res_status (fst (handler w req)) = status r'))))"
proof -
  have a: "res_status (fst (handler w req)) = 200
              \<and> res_payload (fst (handler w req)) = JsonPayload v"
    if "apiKey w = Some key" "key \<noteq> []" "getProp (req_body req) ''messages'' = Some msgs"
       "upstream w = Responded r" "ok r" "resp_body r = Json t v"
    using that by (simp add: handler_post [OF assms] gatewayTry_def respond_def Let_def)
  have b: "res_status (fst (handler w req)) = 500
              \<and> errorField (res_payload (fst (handler w req)))
                  = Some ''Backend Configuration Error: NVIDIA API Key is missing on Vercel.''"
    if "apiKey w = None \<or> apiKey w = Some []"
    using that by (auto simp add: handler_post [OF assms] gatewayTry_def respond_def)
  have c: "res_status (fst (handler w req)) = status r
              \<and> errorField (res_payload (fst (handler w req)))
                  = Some (''Nvidia upstream error: '' @ show_nat (status r) @ '' '' @ errText)"
    if "apiKey w = Some key" "key \<noteq> []" "getProp (req_body req) ''messages'' = Some msgs"
       "upstream w = Responded r" "\<not> ok r" "response_text (resp_body r) = Inr errText"
    using that by (simp add: handler_post [OF assms] gatewayTry_def respond_def Let_def)
  have d: "(res_status (fst (handler w req)) = 200
            \<and> (\<exists>r' t' v'. upstream w = Responded r' \<and> ok r' \<and> resp_body r' = Json t' v'
                  \<and> res_payload (fst (handler w req)) = JsonPayload v'))
          \<or> ((\<exists>e. errorField (res_payload (fst (handler w req))) = Some e)
             \<and> (res_status (fst (handler w req)) = 500
                \<or> (\<exists>r'. upstream w = Responded r' \<and> \<not> ok r'
                      \<and> res_status (fst (handler w req)) = status r')))"
  proof (cases w rule: apiKey_cases)
    case missing
    then show ?thesis using b by simp
  next
    case (present k)
    show ?thesis
    proof (cases "getProp (req_body req) ''messages''")
      case None
      then show ?thesis
        using present by (simp add: handler_post [OF assms] gatewayTry_def respond_def)
    next
      case (Some m)
      show ?thesis
      proof (cases "upstream w")
        case (Rejected e)
        then show ?thesis
          using present Some
          by (simp add: handler_post [OF assms] gatewayTry_def respond_def Let_def)
      next
        case (Responded r')
        show ?thesis
        proof (cases "resp_body r'")
          case (Unreadable e)
          then show ?thesis
            using present Some Responded
            by (cases "ok r'")
               (simp_all add: handler_post [OF assms] gatewayTry_def respond_def Let_def)
        next
          case (NotJson t' e)
          then show ?thesis
            using present Some Responded
            by (cases "ok r'")
               (simp_all add: handler_post [OF assms] gatewayTry_def respond_def Let_def)
        next
          case (Json t' v')
          then show ?thesis
            using present Some Responded
            by (cases "ok r'")
               (simp_all add: handler_post [OF assms] gatewayTry_def respond_def Let_def)
        qed
      qed
    qed
  qed
  show ?thesis using a b c d by blast
qed

text \<open>
  C8 for one request and three situations: an upstream 200 with a completion, a process
  without the credential, and an upstream 502 with the body \<open>Bad Gateway\<close>.
\<close>

theorem gateway_status_and_error_body_witness:
  "fst (handler (exampleGateway (Some ''nvapi-EXAMPLE'')
          (Responded \<lparr>status = 200, statusText = ''OK'',
                      resp_body = Json rawText (completionJson (JStr ''Hi there!''))\<rparr>))
        exampleRequest)
     = \<lparr>res_status = 200, res_headers = corsHeaders,
        res_payload = JsonPayload (completionJson (JStr ''Hi there!''))\<rparr>
   \<and> res_status (fst (handler (exampleGateway None badGateway) exampleRequest)) = 500
   \<and> errorField (res_payload (fst (handler (exampleGateway None badGateway) exampleRequest)))
       = Some ''Backend Configuration Error: NVIDIA API Key is missing on Vercel.''
   \<and> res_status (fst (handler (exampleGateway (Some ''nvapi-EXAMPLE'') badGateway)
        exampleRequest)) = 502
   \<and> errorField (res_payload (fst (handler (exampleGateway (Some ''nvapi-EXAMPLE'') badGateway)
        exampleRequest)))
       = Some ''Nvidia upstream error: 502 Bad Gateway''"
proof -
  let ?up = "\<lparr>status = 200, statusText = ''OK'',
              resp_body = Json rawText (completionJson (JStr ''Hi there!''))\<rparr>"
  let ?bad = "\<lparr>status = 502, statusText = ''Bad Gateway'',
               resp_body = NotJson ''Bad Gateway'' ''Unexpected token B in JSON at position 0''\<rparr>"
  have p: "req_method exampleRequest = ''POST''"
    by (simp add: exampleRequest_def)
  have m: "getProp (req_body exampleRequest) ''messages'' = Some exampleMessages"
    by (simp add: exampleRequest_def)
  have k: "apiKey (exampleGateway (Some ''nvapi-EXAMPLE'') up) = Some ''nvapi-EXAMPLE''" for up
    by (simp add: apiKey_def exampleGateway_def)
  have n: "apiKey (exampleGateway None up) = None" for up
    by (simp add: apiKey_def exampleGateway_def)
  have u: "upstream (exampleGateway kk up) = up" for kk up
    by (simp add: exampleGateway_def)
  have h: "res_headers (fst (handler (exampleGateway (Some ''nvapi-EXAMPLE'') (Responded ?up))
             exampleRequest)) = corsHeaders"
    by (simp add: handler_post [OF p] gatewayTry_def k m u ok_def respond_def Let_def)
  have s1: "res_status (fst (handler (exampleGateway (Some ''nvapi-EXAMPLE'') (Responded ?up))
               exampleRequest)) = 200
          \<and> res_payload (fst (handler (exampleGateway (Some ''nvapi-EXAMPLE'') (Responded ?up))
               exampleRequest)) = JsonPayload (completionJson (JStr ''Hi there!''))"
    using gateway_status_and_error_body [OF p,
        of "exampleGateway (Some ''nvapi-EXAMPLE'') (Responded ?up)" "''nvapi-EXAMPLE''"
           exampleMessages ?up rawText "completionJson (JStr ''Hi there!'')"]
    by (simp add: k m u ok_def)
  have s2: "res_status (fst (handler (exampleGateway None badGateway) exampleRequest)) = 500
          \<and> errorField (res_payload (fst (handler (exampleGateway None badGateway)
               exampleRequest)))
              = Some ''Backend Configuration Error: NVIDIA API Key is missing on Vercel.''"
    using gateway_status_and_error_body [OF p, of "exampleGateway None badGateway"]
    by (simp add: n)
  have s3: "res_status (fst (handler (exampleGateway (Some ''nvapi-EXAMPLE'') badGateway)
               exampleRequest)) = 502
          \<and> errorField (res_payload (fst (handler (exampleGateway (Some ''nvapi-EXAMPLE'')
               badGateway) exampleRequest)))
              = Some ''Nvidia upstream error: 502 Bad Gateway''"
    using gateway_status_and_error_body [OF p,
        of "exampleGateway (Some ''nvapi-EXAMPLE'') badGateway" "''nvapi-EXAMPLE''"
           exampleMessages ?bad _ _ "''Bad Gateway''"]
    by (simp add: k m u ok_def badGateway_def show_nat_502)
  show ?thesis
    using s1 s2 s3 h
    by (cases "fst (handler (exampleGateway (Some ''nvapi-EXAMPLE'') (Responded ?up))
                 exampleRequest)") simp
qed

text \<open>
  C9. For every POST that the gateway forwards (the credential is set and the request
  body can be destructured), the one request sent upstream has the model
  \<open>meta/llama-3.1-70b-instruct\<close>, the temperature 0.7 and \<open>max_tokens\<close> 1024, and takes
  from the caller's body the \<open>messages\<close> field only: two POST bodies with the same
  \<open>messages\<close> give the same upstream request.
\<close>

theorem gateway_forwards_fixed_parameters:
  assumes "req_method req = ''POST''" and "apiKey w = Some key" and "key \<noteq> []"
    and "getProp (req_body req) ''messages'' = Some msgs"
  shows "upstreamRequests (snd (handler w req)) =
           [\<lparr>url = ''https://integrate.api.nvidia.com/v1/chat/completions'',
             http_method = ''POST'',
             headers = [(''Content-Type'', ''application/json''),
                        (''Authorization'', ''Bearer '' @ key)],
             body = \<lparr>cb_model = ''meta/llama-3.1-70b-instruct'',
                      cb_messages = msgs,
                      cb_temperature = 7 / 10,
                      cb_max_tokens = 1024\<rparr>\<rparr>]
       \<and> (\<forall>req'. req_method req' = ''POST''
              \<and> getProp (req_body req') ''messages'' = getProp (req_body req) ''messages''
            \<longrightarrow> upstreamRequests (snd (handler w req')) = upstreamRequests (snd (handler w req)))"
proof -
  have a: "upstreamRequests (snd (handler w q)) = [upstreamRequest key msgs]"
    if "req_method q = ''POST''" "getProp (req_body q) ''messages'' = Some msgs" for q
    using that assms(2,3)
    by (simp add: handler_post gatewayTry_def Let_def
        split: fetch_outcome.splits sum.splits body_read.splits)
  show ?thesis
    using a [OF assms(1,4)] a assms(4) by (simp add: upstreamRequest_def)
qed

text \<open>
  C9 for a caller that asks for another model, temperature 2 and five tokens: the
  upstream request keeps the fixed values and takes the caller's messages.
\<close>

theorem gateway_forwards_fixed_parameters_witness:
  "upstreamRequests (snd (handler (exampleGateway (Some ''nvapi-EXAMPLE'') badGateway)
      exampleRequest)) =
     [\<lparr>url = ''https://integrate.api.nvidia.com/v1/chat/completions'',
       http_method = ''POST'',
       headers = [(''Content-Type'', ''application/json''),
                  (''Authorization'', ''Bearer nvapi-EXAMPLE'')],
       body = \<lparr>cb_model = ''meta/llama-3.1-70b-instruct'',
                cb_messages = JArr [JObj [(''role'', JStr ''user''),
                                          (''content'', JStr ''hello'')]],
                cb_temperature = 7 / 10,
                cb_max_tokens = 1024\<rparr>\<rparr>]"
proof -
  have p: "req_method exampleRequest = ''POST''"
    by (simp add: exampleRequest_def)
  have k: "apiKey (exampleGateway (Some ''nvapi-EXAMPLE'') badGateway) = Some ''nvapi-EXAMPLE''"
    by (simp add: apiKey_def exampleGateway_def)
  have e: "''nvapi-EXAMPLE'' \<noteq> []"
    by simp
  have m: "getProp (req_body exampleRequest) ''messages'' = Some exampleMessages"
    by (simp add: exampleRequest_def)
  show ?thesis
    using gateway_forwards_fixed_parameters [OF p k e m]
    by (simp add: exampleMessages_def)
qed

section \<open>Further properties of the two handlers\<close>

text \<open>
  When a 2xx response has a \<open>choices\<close> value with an entry to read at index 0, but
  \<open>choices[0]?.message?.content\<close> is missing, \<open>null\<close> or empty, the flow does not fail:
  the fallback sentence is the content of the row handed to the store, and the view model
  gains the row the store returns or, without one, a local turn with the fallback
  sentence.
\<close>

lemma fallback_content_when_choices_present:
  assumes "js_trim (input s) \<noteq> []" and "\<not> isLoading s"
    and "fetched w = Responded r" and "ok r"
    and "response_json (resp_body r) = Inr resData"
    and "getProp resData ''choices'' = Some choices"
    and "getIndex choices 0 = Some c0"
    and "\<not> truthy (optChain (optChain c0 ''message'') ''content'')"
  shows "handleSend w s =
           (\<lparr>messages = messages s @
               [newUserMsg w s,
                case data (assistantInsert w) of
                  Some savedAssistantMsg \<Rightarrow> savedAssistantMsg
                | None \<Rightarrow> \<lparr>msg_id = randomUUID_2 w, role = Assistant,
                           content = JStr fallbackContent, created_at = None\<rparr>],
             input = [], isLoading = False\<rparr>,
            [PreventDefault,
             Insert \<lparr>session_id = getSessionId, row_role = User,
                     row_content = JStr (js_trim (input s))\<rparr>,
             Fetch (chatRequest (import_meta_env_VITE_NVIDIA_API_KEY w)
                      (apiMessages (messages s) (js_trim (input s)))),
             InsertSelectSingle \<lparr>session_id = getSessionId, row_role = Assistant,
                                 row_content = JStr fallbackContent\<rparr>]
            @ (case error (assistantInsert w) of
                 Some supabaseError \<Rightarrow>
                   [ConsoleWarn ''Failed to insert assistant message:'' supabaseError]
               | None \<Rightarrow> []))"
  using assms(3-8)
  by (simp add: handleSend_accepts [OF assms(1,2)] tryBlock_def assistantMsgContent_def Let_def
      split: option.splits)

text \<open>The fallback for a response whose \<open>choices\<close> is the empty array, the store failing as well.\<close>

lemma fallback_content_when_choices_present_witness:
  "handleSend
     (exampleWorld\<lparr>fetched := Responded \<lparr>status = 200, statusText = ''OK'',
                      resp_body = Json rawText (JObj [(''choices'', JArr [])])\<rparr>,
                   assistantInsert := \<lparr>data = None, error = Some ''insert failed''\<rparr>\<rparr>)
     helloState =
     (\<lparr>messages =
         [\<lparr>msg_id = ''3b241101-e2bb-4255-8caf-4136c566a962'', role = User,
           content = JStr ''hello'', created_at = None\<rparr>,
          \<lparr>msg_id = ''9c5b94b1-35ad-49bb-b118-8e8fc24abf80'', role = Assistant,
           content = JStr fallbackContent, created_at = None\<rparr>],
       input = [], isLoading = False\<rparr>,
      [PreventDefault,
       Insert \<lparr>session_id = getSessionId, row_role = User, row_content = JStr ''hello''\<rparr>,
       Fetch (chatRequest (Some ''nvapi-EXAMPLE'') (apiMessages [] ''hello'')),
       InsertSelectSingle \<lparr>session_id = getSessionId, row_role = Assistant,
                           row_content = JStr fallbackContent\<rparr>,
       ConsoleWarn ''Failed to insert assistant message:'' ''insert failed''])"
proof -
  let ?r = "\<lparr>status = 200, statusText = ''OK'',
             resp_body = Json rawText (JObj [(''choices'', JArr [])])\<rparr>"
  let ?w = "exampleWorld\<lparr>fetched := Responded ?r,
              assistantInsert := \<lparr>data = None, error = Some ''insert failed''\<rparr>\<rparr>"
  have g: "js_trim (input helloState) \<noteq> []" "\<not> isLoading helloState"
    by (simp_all add: helloState_def js_trim_hello)
  have h1: "fetched ?w = Responded ?r" by simp
  have h2: "ok ?r" by (simp add: ok_def)
  have h3: "response_json (resp_body ?r) = Inr (JObj [(''choices'', JArr [])])" by simp
  have h4: "getProp (JObj [(''choices'', JArr [])]) ''choices'' = Some (JArr [])" by simp
  have h5: "getIndex (JArr []) 0 = Some JUndefined" by simp
  have h6: "\<not> truthy (optChain (optChain JUndefined ''message'') ''content'')"
    by (simp add: optChain_def)
  show ?thesis
    using fallback_content_when_choices_present [OF g h1 h2 h3 h4 h5 h6]
    by (simp add: helloState_def js_trim_hello newUserMsg_def exampleWorld_simps)
qed

text \<open>
  The gateway answers the pre-flight method \<open>OPTIONS\<close> with status 200, the permissive
  cross-origin headers and no body, and any method other than \<open>OPTIONS\<close> and \<open>POST\<close> with
  status 405 and an \<open>error\<close> string; in both cases nothing is sent upstream.
\<close>

lemma gateway_preflight_and_other_methods:
  "(req_method req = ''OPTIONS'' \<longrightarrow>
      handler w req =
        (\<lparr>res_status = 200, res_headers = corsHeaders, res_payload = Ended\<rparr>, []))
   \<and> (req_method req \<noteq> ''OPTIONS'' \<and> req_method req \<noteq> ''POST'' \<longrightarrow>
      res_status (fst (handler w req)) = 405
      \<and> errorField (res_payload (fst (handler w req))) = Some ''Method not allowed. Use POST.''
      \<and> snd (handler w req) = [])"
  by (simp add: handler_def respond_def)

text \<open>The gateway's answers for \<open>OPTIONS\<close> and for \<open>GET\<close>.\<close>

lemma gateway_preflight_and_other_methods_witness:
  "handler (exampleGateway (Some ''nvapi-EXAMPLE'') badGateway)
       \<lparr>req_method = ''OPTIONS'', req_body = JUndefined\<rparr>
     = (\<lparr>res_status = 200, res_headers = corsHeaders, res_payload = Ended\<rparr>, [])
   \<and> res_status (fst (handler (exampleGateway (Some ''nvapi-EXAMPLE'') badGateway)
        \<lparr>req_method = ''GET'', req_body = JUndefined\<rparr>)) = 405"
  using gateway_preflight_and_other_methods
      [of "\<lparr>req_method = ''OPTIONS'', req_body = JUndefined\<rparr>"
          "exampleGateway (Some ''nvapi-EXAMPLE'') badGateway"]
    gateway_preflight_and_other_methods
      [of "\<lparr>req_method = ''GET'', req_body = JUndefined\<rparr>"
          "exampleGateway (Some ''nvapi-EXAMPLE'') badGateway"]
  by simp

text \<open>
  The view model is append-only under \<open>handleSend\<close>: whatever the store and the
  provider do, the turns shown before the call are the first turns shown after it,
  unchanged and in the same order.
\<close>

lemma view_model_is_append_only:
  "take (length (messages s)) (messages (fst (handleSend w s))) = messages s"
  by (simp add: handleSend_def tryBlock_def catchBlock_def Let_def
      split: fetch_outcome.splits sum.splits option.splits)

text \<open>
  Every accepted submission settles: whatever the store and the provider do, the run
  ends with the in-flight flag cleared and the input empty, and the view model has gained
  exactly two turns, the first of them the user's.
\<close>

lemma accepted_submission_settles:
  assumes "js_trim (input s) \<noteq> []" and "\<not> isLoading s"
  shows "isLoading (fst (handleSend w s)) = False
       \<and> input (fst (handleSend w s)) = []
       \<and> length (messages (fst (handleSend w s))) = length (messages s) + 2
       \<and> messages (fst (handleSend w s)) ! length (messages s) = newUserMsg w s"
  by (simp add: handleSend_accepts [OF assms] tryBlock_def Let_def nth_append
      split: fetch_outcome.splits sum.splits option.splits)

text \<open>Settling in the \<open>hello\<close> scenario with the provider answering 502.\<close>

lemma accepted_submission_settles_witness:
  "isLoading (fst (handleSend (exampleWorld\<lparr>fetched := badGateway\<rparr>) helloState)) = False
   \<and> input (fst (handleSend (exampleWorld\<lparr>fetched := badGateway\<rparr>) helloState)) = []
   \<and> length (messages (fst (handleSend (exampleWorld\<lparr>fetched := badGateway\<rparr>) helloState)))
       = 2"
proof -
  have g: "js_trim (input helloState) \<noteq> []" "\<not> isLoading helloState"
    by (simp_all add: helloState_def js_trim_hello)
  show ?thesis
    using accepted_submission_settles [OF g, of "exampleWorld\<lparr>fetched := badGateway\<rparr>"]
    by (simp add: helloState_def)
qed

end
